theory Spec2Isabelle
  imports Main
begin

section \<open>autocleanup.h: scoped release of pointers and handles\<close>

text \<open>
  The header binds a release function to a local variable through the compiler's
  \<^verbatim>\<open>cleanup\<close> variable attribute: when the variable goes out of scope the compiler
  calls the cleanup function once, passing the address of the variable.
  The cleanup functions and the helper macros are embedded below, one definition
  per function or macro of the header, with the header's names (a leading
  underscore is dropped, since an identifier cannot start with one here).
\<close>

subsection \<open>Memory, pointers and release functions\<close>

text \<open>
  A C pointer is an address; the null pointer \<^verbatim>\<open>(void* ) 0\<close> is address \<open>0\<close>.
  The memory maps the address of each variable to the value held there (for a
  pointer binding that value is itself an address, for a handle binding a value
  of the handle type).
\<close>

type_synonym addr = nat

abbreviation NULL :: addr where
  "NULL \<equiv> 0"

type_synonym fname = string

text \<open>
  The state is the memory together with the record of the calls made to release
  functions so far, oldest first: the name of the function and its argument.
\<close>

record 'v state =
  mem :: "addr \<Rightarrow> 'v"
  calls :: "(fname \<times> 'v) list"

text \<open>
  A release function is a parameter of the macros (\<^verbatim>\<open>_func\<close>): any function from the
  released value to an effect on the state. The release functions of client code
  are external to the header; \<open>release f\<close> stands for the external function named
  \<open>f\<close>, whose only effect seen here is that its call is recorded.
\<close>

definition release :: "fname \<Rightarrow> 'v \<Rightarrow> 'v state \<Rightarrow> 'v state" where
  "release f v st = st\<lparr>calls := calls st @ [(f, v)]\<rparr>"

text \<open>Dereferencing the null pointer is an error of the program.\<close>

datatype error = NullDeref

subsection \<open>Pointer bindings\<close>

text \<open>
  \<^verbatim>\<open>static inline void _ptr_auto_cleanup_T (T **_ptr) { if (_ptr) (_func) ( *_ptr); }\<close>
  as generated by \<^verbatim>\<open>PTR_AUTO_DEFINE (T, _func)\<close>.
\<close>

definition ptr_auto_cleanup ::
    "(addr \<Rightarrow> addr state \<Rightarrow> addr state) \<Rightarrow> addr \<Rightarrow> addr state \<Rightarrow> addr state" where
  "ptr_auto_cleanup func ptr st = (if ptr \<noteq> NULL then func (mem st ptr) st else st)"

text \<open>
  \<^verbatim>\<open>AUTOCLEANUP_FREE_FUNC\<close> is \<^verbatim>\<open>free\<close> of the C library unless the
  including file defines it otherwise.
\<close>

definition libc_free :: "addr \<Rightarrow> addr state \<Rightarrow> addr state" where
  "libc_free = release ''free''"

definition AUTOCLEANUP_FREE_FUNC :: "addr \<Rightarrow> addr state \<Rightarrow> addr state" where
  "AUTOCLEANUP_FREE_FUNC = libc_free"

text \<open>
  \<^verbatim>\<open>static inline void _ptr_auto_generic_free (void **ptr)
  { if (ptr) AUTOCLEANUP_FREE_FUNC ( *ptr); }\<close>
\<close>

definition ptr_auto_generic_free :: "addr \<Rightarrow> addr state \<Rightarrow> addr state" where
  "ptr_auto_generic_free ptr st =
     (if ptr \<noteq> NULL then AUTOCLEANUP_FREE_FUNC (mem st ptr) st else st)"

text \<open>
  \<^verbatim>\<open>ptr_steal\<close>: read \<^verbatim>\<open>*ptr\<close>, store the null pointer, return what was read.
  The macro of the same name only casts the result back to the pointer type.
\<close>

definition ptr_steal :: "addr \<Rightarrow> addr state \<Rightarrow> error + (addr \<times> addr state)" where
  "ptr_steal pp st =
     (if pp = NULL then Inl NullDeref
      else let ptr = pp;
               ref = mem st ptr
           in Inr (ref, st\<lparr>mem := (mem st)(ptr := NULL)\<rparr>))"

subsection \<open>Handle bindings\<close>

text \<open>
  The cleanup function generated by \<^verbatim>\<open>HANDLE_AUTO_DEFINE (T, _func, _nil_value)\<close>;
  \<open>nil_value\<close> is the constant \<^verbatim>\<open>_handle_auto_nil_T\<close>.
\<close>

definition handle_auto_cleanup ::
    "('v \<Rightarrow> 'v state \<Rightarrow> 'v state) \<Rightarrow> 'v \<Rightarrow> addr \<Rightarrow> 'v state \<Rightarrow> 'v state" where
  "handle_auto_cleanup func nil_value ptr st =
     (if ptr \<noteq> NULL then
        let handle = mem st ptr in
        if handle \<noteq> nil_value
        then func handle (st\<lparr>mem := (mem st)(ptr := nil_value)\<rparr>)
        else st
      else st)"

text \<open>The macro \<^verbatim>\<open>handle_clear (_handle_ptr, _func, _nil_value)\<close>.\<close>

definition handle_clear ::
    "addr \<Rightarrow> ('v \<Rightarrow> 'v state \<Rightarrow> 'v state) \<Rightarrow> 'v \<Rightarrow> 'v state \<Rightarrow> error + 'v state" where
  "handle_clear handle_ptr func nil_value st =
     (if handle_ptr = NULL then Inl NullDeref
      else let handle = mem st handle_ptr;
               vnil = nil_value
           in if handle \<noteq> vnil
              then Inr (func handle (st\<lparr>mem := (mem st)(handle_ptr := vnil)\<rparr>))
              else Inr st)"

text \<open>The macro \<^verbatim>\<open>handle_steal (_handle_ptr, _nil_value)\<close>.\<close>

definition handle_steal :: "addr \<Rightarrow> 'v \<Rightarrow> 'v state \<Rightarrow> error + ('v \<times> 'v state)" where
  "handle_steal handle_ptr nil_value st =
     (if handle_ptr = NULL then Inl NullDeref
      else let handle = mem st handle_ptr
           in Inr (handle, st\<lparr>mem := (mem st)(handle_ptr := nil_value)\<rparr>))"

text \<open>\<^verbatim>\<open>#define ptr_clear(_pp, _func)  handle_clear ((_pp), (_func), ((void* )0))\<close>\<close>

definition ptr_clear ::
    "addr \<Rightarrow> (addr \<Rightarrow> addr state \<Rightarrow> addr state) \<Rightarrow> addr state \<Rightarrow> error + addr state" where
  "ptr_clear pp func st = handle_clear pp func NULL st"

section \<open>Properties\<close>

subsection \<open>Basic facts about the recorded calls\<close>

lemma release_calls [simp]: "calls (release f v st) = calls st @ [(f, v)]"
  by (simp add: release_def)

lemma release_mem [simp]: "mem (release f v st) = mem st"
  by (simp add: release_def)

subsection \<open>Scope exit of a handle binding\<close>

text \<open>
  C4. For a handle binding declared with nil sentinel \<open>nil\<close>, the cleanup function
  run at scope exit calls the release function with the held value exactly when that
  value differs from \<open>nil\<close> (and makes no other call), and afterwards the binding
  holds \<open>nil\<close>.
\<close>

theorem handle_auto_cleanup_releases_iff_not_nil:
  assumes "ptr \<noteq> NULL"
  shows "calls (handle_auto_cleanup (release f) nil ptr st) =
           calls st @ (if mem st ptr \<noteq> nil then [(f, mem st ptr)] else [])
         \<and> mem (handle_auto_cleanup (release f) nil ptr st) ptr = nil"
  using assms by (simp add: handle_auto_cleanup_def Let_def)

theorem handle_auto_cleanup_releases_iff_not_nil_witness:
  "(1::addr) \<noteq> NULL
   \<and> calls (handle_auto_cleanup (release ''close'') (-1::int) 1 \<lparr>mem = (\<lambda>_. 5), calls = []\<rparr>)
       = [(''close'', 5)]
   \<and> mem (handle_auto_cleanup (release ''close'') (-1::int) 1 \<lparr>mem = (\<lambda>_. 5), calls = []\<rparr>) 1
       = -1
   \<and> calls (handle_auto_cleanup (release ''close'') (-1::int) 1 \<lparr>mem = (\<lambda>_. -1), calls = []\<rparr>)
       = []"
  using handle_auto_cleanup_releases_iff_not_nil
          [of 1 "''close''" "-1::int" "\<lparr>mem = (\<lambda>_. 5), calls = []\<rparr>"]
        handle_auto_cleanup_releases_iff_not_nil
          [of 1 "''close''" "-1::int" "\<lparr>mem = (\<lambda>_. -1), calls = []\<rparr>"]
  by simp

text \<open>
  C9. The generated cleanup stores the nil sentinel before it calls the release
  function: the release function runs in the state in which the binding already
  holds \<open>nil\<close>. For a release function that leaves the binding alone, the binding
  holds \<open>nil\<close> after the cleanup has run, and running the cleanup a second time
  changes nothing (the release function is not called again).
\<close>

theorem handle_auto_cleanup_idempotent:
  assumes "ptr \<noteq> NULL"
    and "\<forall>v s. mem (func v s) ptr = mem s ptr"
  shows "handle_auto_cleanup func nil ptr st =
           (if mem st ptr \<noteq> nil
            then func (mem st ptr) (st\<lparr>mem := (mem st)(ptr := nil)\<rparr>)
            else st)
         \<and> mem (handle_auto_cleanup func nil ptr st) ptr = nil
         \<and> handle_auto_cleanup func nil ptr (handle_auto_cleanup func nil ptr st) =
             handle_auto_cleanup func nil ptr st"
proof -
  let ?st' = "handle_auto_cleanup func nil ptr st"
  have step: "?st' =
      (if mem st ptr \<noteq> nil
       then func (mem st ptr) (st\<lparr>mem := (mem st)(ptr := nil)\<rparr>)
       else st)"
    using assms(1) by (simp add: handle_auto_cleanup_def Let_def)
  have reads_nil: "mem ?st' ptr = nil"
    using assms(2) by (simp add: step)
  have "handle_auto_cleanup func nil ptr ?st' = ?st'"
    using assms(1) reads_nil by (simp add: handle_auto_cleanup_def [of func nil ptr ?st'])
  with step reads_nil show ?thesis by blast
qed

theorem handle_auto_cleanup_idempotent_witness:
  "(1::addr) \<noteq> NULL
   \<and> (\<forall>v s. mem (release ''close'' (v::int) s) 1 = mem s 1)
   \<and> mem (handle_auto_cleanup (release ''close'') (-1::int) 1
            \<lparr>mem = (\<lambda>_. 5), calls = []\<rparr>) 1 = -1
   \<and> calls (handle_auto_cleanup (release ''close'') (-1::int) 1
        (handle_auto_cleanup (release ''close'') (-1::int) 1
           \<lparr>mem = (\<lambda>_. 5), calls = []\<rparr>)) = [(''close'', 5)]"
  using handle_auto_cleanup_idempotent
          [of 1 "release ''close''" "-1::int" "\<lparr>mem = (\<lambda>_. 5), calls = []\<rparr>"]
  by (simp add: handle_auto_cleanup_def)

subsection \<open>Stealing\<close>

text \<open>
  C5. \<open>ptr_steal\<close> and \<open>handle_steal\<close> return the value the binding held and leave
  the binding empty (the null pointer, or the nil sentinel passed to
  \<open>handle_steal\<close>); nothing else changes and no release function is called. There is
  no condition on the held value: an empty binding yields the empty value.
\<close>

theorem steal_returns_held_value_and_empties:
  assumes "pp \<noteq> NULL"
  shows "ptr_steal pp pst = Inr (mem pst pp, pst\<lparr>mem := (mem pst)(pp := NULL)\<rparr>)
         \<and> handle_steal pp nil st = Inr (mem st pp, st\<lparr>mem := (mem st)(pp := nil)\<rparr>)"
  using assms by (simp add: ptr_steal_def handle_steal_def Let_def)

theorem steal_returns_held_value_and_empties_witness:
  "(1::addr) \<noteq> NULL
   \<and> ptr_steal 1 \<lparr>mem = (\<lambda>_. NULL), calls = []\<rparr>
       = Inr (NULL, \<lparr>mem = (\<lambda>_. NULL), calls = []\<rparr>)
   \<and> handle_steal 1 (-1::int) \<lparr>mem = (\<lambda>_. 5), calls = []\<rparr>
       = Inr (5, \<lparr>mem = (\<lambda>_. 5)(1 := -1), calls = []\<rparr>)"
  using steal_returns_held_value_and_empties
          [of 1 "\<lparr>mem = (\<lambda>_. NULL), calls = []\<rparr>" "-1::int"
              "\<lparr>mem = (\<lambda>_. 5), calls = []\<rparr>"]
  by (simp add: fun_eq_iff)

text \<open>
  C10. \<open>handle_steal\<close> compares nothing: it returns the held value, whatever it is,
  and stores the value \<open>n\<close> it was given, which need not be the sentinel \<open>nil\<close> of
  the binding's declaration. The cleanup run at scope exit afterwards calls the
  release function with \<open>n\<close> exactly when \<open>n\<close> differs from \<open>nil\<close>.
\<close>

theorem handle_steal_stores_given_value:
  assumes "hp \<noteq> NULL"
  shows "handle_steal hp n st = Inr (mem st hp, st\<lparr>mem := (mem st)(hp := n)\<rparr>)
         \<and> calls (handle_auto_cleanup (release f) nil hp (st\<lparr>mem := (mem st)(hp := n)\<rparr>)) =
             calls st @ (if n \<noteq> nil then [(f, n)] else [])"
  using assms by (simp add: handle_steal_def handle_auto_cleanup_def Let_def)

theorem handle_steal_stores_given_value_witness:
  "(1::addr) \<noteq> NULL
   \<and> handle_steal 1 (0::int) \<lparr>mem = (\<lambda>_. -1), calls = []\<rparr>
       = Inr (-1, \<lparr>mem = (\<lambda>_. -1)(1 := 0), calls = []\<rparr>)
   \<and> calls (handle_auto_cleanup (release ''close'') (-1::int) 1
              \<lparr>mem = (\<lambda>_. -1)(1 := 0), calls = []\<rparr>) = [(''close'', 0)]"
  using handle_steal_stores_given_value
          [of 1 "0::int" "\<lparr>mem = (\<lambda>_. -1), calls = []\<rparr>" "''close''" "-1::int"]
  by simp

subsection \<open>Clearing\<close>

text \<open>
  Clearing a handle binding that is not empty (it holds a value other than the
  sentinel \<open>nil\<close> passed to \<open>handle_clear\<close>) calls the release function once, at
  once, with the value held, and leaves the binding equal to \<open>nil\<close>; the cleanup of
  a handle binding declared with the same sentinel then does nothing at scope exit.
\<close>

lemma handle_clear_releases_once_and_empties:
  assumes "hp \<noteq> NULL" and "mem st hp \<noteq> nil"
  shows "\<exists>st'. handle_clear hp (release f) nil st = Inr st'
           \<and> calls st' = calls st @ [(f, mem st hp)]
           \<and> mem st' hp = nil
           \<and> handle_auto_cleanup func nil hp st' = st'"
  using assms by (simp add: handle_clear_def handle_auto_cleanup_def Let_def)

lemma handle_clear_releases_once_and_empties_witness:
  "(1::addr) \<noteq> NULL
   \<and> mem \<lparr>mem = (\<lambda>_. 5::int), calls = []\<rparr> 1 \<noteq> -1
   \<and> (\<exists>st'. handle_clear 1 (release ''close'') (-1::int) \<lparr>mem = (\<lambda>_. 5), calls = []\<rparr> = Inr st'
           \<and> calls st' = [(''close'', 5)]
           \<and> mem st' 1 = -1
           \<and> handle_auto_cleanup (release ''close'') (-1) 1 st' = st')"
  using handle_clear_releases_once_and_empties
          [of 1 "\<lparr>mem = (\<lambda>_. 5), calls = []\<rparr>" "-1::int" "''close''" "release ''close''"]
  by simp

text \<open>
  C6. For a pointer binding the clearing itself behaves in the same way, but the
  scope exit afterwards does not: a pointer binding (address \<open>1\<close>) holds the pointer
  \<open>42\<close>; \<open>ptr_clear\<close> calls the release function once with \<open>42\<close> and stores the
  null pointer. The cleanup of the pointer binding, run at scope exit, then calls
  the release function a second time, with the null pointer.
\<close>

theorem ptr_clear_then_scope_exit_calls_release_again:
  "ptr_clear 1 (release ''unref'') \<lparr>mem = (\<lambda>_. 42), calls = []\<rparr>
     = Inr \<lparr>mem = (\<lambda>_. 42)(1 := NULL), calls = [(''unref'', 42)]\<rparr>
   \<and> calls (ptr_auto_cleanup (release ''unref'') 1
              \<lparr>mem = (\<lambda>_. 42)(1 := NULL), calls = [(''unref'', 42)]\<rparr>)
     = [(''unref'', 42), (''unref'', NULL)]"
  by (simp add: ptr_clear_def handle_clear_def ptr_auto_cleanup_def release_def Let_def)

text \<open>
  C7. Clearing an empty binding (\<open>handle_clear\<close> on a binding that holds the
  sentinel it is given, \<open>ptr_clear\<close> on a binding that holds the null pointer)
  calls no release function and leaves the state, the binding included, as it was.
\<close>

theorem clear_of_empty_binding_is_noop:
  assumes "hp \<noteq> NULL"
  shows "(mem st hp = nil \<longrightarrow> handle_clear hp func nil st = Inr st)
         \<and> (mem pst hp = NULL \<longrightarrow> ptr_clear hp pfunc pst = Inr pst)"
  using assms by (simp add: ptr_clear_def handle_clear_def Let_def)

theorem clear_of_empty_binding_is_noop_witness:
  "(1::addr) \<noteq> NULL
   \<and> mem \<lparr>mem = (\<lambda>_. -1::int), calls = []\<rparr> 1 = -1
   \<and> handle_clear 1 (release ''close'') (-1::int) \<lparr>mem = (\<lambda>_. -1), calls = []\<rparr>
       = Inr \<lparr>mem = (\<lambda>_. -1), calls = []\<rparr>
   \<and> mem \<lparr>mem = (\<lambda>_. NULL), calls = []\<rparr> 1 = NULL
   \<and> ptr_clear 1 (release ''unref'') \<lparr>mem = (\<lambda>_. NULL), calls = []\<rparr>
       = Inr \<lparr>mem = (\<lambda>_. NULL), calls = []\<rparr>"
  using clear_of_empty_binding_is_noop
          [of 1 "\<lparr>mem = (\<lambda>_. -1::int), calls = []\<rparr>" "-1::int" "release ''close''"
              "\<lparr>mem = (\<lambda>_. NULL), calls = []\<rparr>" "release ''unref''"]
  by simp

subsection \<open>Scope exit of a pointer binding\<close>

text \<open>
  C1. The cleanup function of a pointer binding tests the address of the variable,
  not the pointer the variable holds. At the scope exit of a variable (address \<open>1\<close>)
  that holds the null pointer, the cleanup generated by \<^verbatim>\<open>PTR_AUTO_DEFINE\<close> calls
  the release function with the null pointer, and so does
  \<^verbatim>\<open>_ptr_auto_generic_free\<close>.
\<close>

theorem ptr_cleanup_of_null_pointer_calls_release:
  "calls (ptr_auto_cleanup (release ''unref'') 1 \<lparr>mem = (\<lambda>_. NULL), calls = []\<rparr>)
     = [(''unref'', NULL)]
   \<and> calls (ptr_auto_generic_free 1 \<lparr>mem = (\<lambda>_. NULL), calls = []\<rparr>)
     = [(''free'', NULL)]"
  by (simp add: ptr_auto_cleanup_def ptr_auto_generic_free_def AUTOCLEANUP_FREE_FUNC_def
        libc_free_def)

text \<open>
  C2. A pointer binding (address \<open>1\<close>) holds the pointer \<open>42\<close>; \<open>ptr_steal\<close> returns
  \<open>42\<close> and stores the null pointer. The cleanup run at scope exit then calls the
  release function all the same, with the null pointer.
\<close>

theorem ptr_steal_then_scope_exit_calls_release:
  "ptr_steal 1 \<lparr>mem = (\<lambda>_. 42), calls = []\<rparr>
     = Inr (42, \<lparr>mem = (\<lambda>_. 42)(1 := NULL), calls = []\<rparr>)
   \<and> calls (ptr_auto_cleanup (release ''unref'') 1 \<lparr>mem = (\<lambda>_. 42)(1 := NULL), calls = []\<rparr>)
     = [(''unref'', NULL)]"
  by (simp add: ptr_steal_def ptr_auto_cleanup_def Let_def)

text \<open>
  At scope exit the cleanup of a binding that holds a resource calls the release
  function once with that resource, for pointer and handle bindings alike.
\<close>

lemma scope_exit_releases_held_resource:
  assumes "ptr \<noteq> NULL"
  shows "mem pst ptr \<noteq> NULL \<Longrightarrow>
           calls (ptr_auto_cleanup (release f) ptr pst) = calls pst @ [(f, mem pst ptr)]"
    and "mem st ptr \<noteq> nil \<Longrightarrow>
           calls (handle_auto_cleanup (release f) nil ptr st) = calls st @ [(f, mem st ptr)]"
  using assms by (simp_all add: ptr_auto_cleanup_def handle_auto_cleanup_def Let_def)

text \<open>
  C3. For an empty binding the two kinds differ at scope exit: the cleanup of a
  handle binding (address \<open>1\<close>) that holds its sentinel \<open>-1\<close> leaves the state as
  it was, the cleanup of a pointer binding that holds the null pointer does not.
\<close>

theorem scope_exit_of_empty_ptr_binding_is_not_noop:
  "ptr_auto_cleanup (release ''unref'') 1 \<lparr>mem = (\<lambda>_. NULL), calls = []\<rparr>
     \<noteq> \<lparr>mem = (\<lambda>_. NULL), calls = []\<rparr>
   \<and> handle_auto_cleanup (release ''close'') (-1::int) 1 \<lparr>mem = (\<lambda>_. -1), calls = []\<rparr>
     = \<lparr>mem = (\<lambda>_. -1), calls = []\<rparr>"
  by (simp add: ptr_auto_cleanup_def handle_auto_cleanup_def release_def)

end
